theory Spec2Isabelle
  imports Complex_Main
begin

section \<open>Python strings\<close>

text \<open>
  A Python \<open>str\<close> is a sequence of code points. The model is \<open>string\<close>, whose characters
  are the code points U+0000 to U+00FF; \<open>length\<close> is Python's \<open>len\<close>. The three character
  classes below are Python's on that range: \<open>str.isspace\<close> (what \<open>strip()\<close> removes),
  \<open>str.isdigit\<close> (which also accepts the superscripts U+00B2, U+00B3 and U+00B9) and
  \<open>str.lower\<close> (which maps A-Z and U+00C0-U+00DE, the multiplication sign apart, 32 places up).
\<close>

definition isspace_char :: "char \<Rightarrow> bool" where
  "isspace_char c =
     (of_char c \<in> {9, 10, 11, 12, 13, 28, 29, 30, 31, 32, 133, 160 :: nat})"

definition isdigit_char :: "char \<Rightarrow> bool" where
  "isdigit_char c =
     ((48 \<le> (of_char c :: nat) \<and> (of_char c :: nat) \<le> 57)
       \<or> of_char c \<in> {178, 179, 185 :: nat})"

definition lower_char :: "char \<Rightarrow> char" where
  "lower_char c =
     (let n = (of_char c :: nat)
      in if (65 \<le> n \<and> n \<le> 90) \<or> (192 \<le> n \<and> n \<le> 222 \<and> n \<noteq> 215)
         then char_of (n + 32) else c)"

definition strip :: "string \<Rightarrow> string" where
  "strip s = rev (dropWhile isspace_char (rev (dropWhile isspace_char s)))"

definition isdigit :: "string \<Rightarrow> bool" where
  "isdigit s = (s \<noteq> [] \<and> list_all isdigit_char s)"

definition lower :: "string \<Rightarrow> string" where
  "lower s = map lower_char s"

text \<open>\<open>q in s\<close> on strings: \<open>q\<close> occurs in \<open>s\<close> as a contiguous run.\<close>

fun starts_with :: "string \<Rightarrow> string \<Rightarrow> bool" where
  "starts_with [] s = True"
| "starts_with (c # q) [] = False"
| "starts_with (c # q) (d # s) = (c = d \<and> starts_with q s)"

fun str_in :: "string \<Rightarrow> string \<Rightarrow> bool" where
  "str_in q [] = (q = [])"
| "str_in q (d # s) = (starts_with q (d # s) \<or> str_in q s)"

text \<open>\<open>str(n)\<close> for an integer: decimal digits, a minus sign for a negative number.\<close>

fun str_nat :: "nat \<Rightarrow> string" where
  "str_nat n =
     (if n < 10 then [char_of (48 + n)]
      else str_nat (n div 10) @ [char_of (48 + n mod 10)])"

declare str_nat.simps [simp del]

definition str_int :: "int \<Rightarrow> string" where
  "str_int i = (if i < 0 then CHR ''-'' # str_nat (nat (- i)) else str_nat (nat i))"

section \<open>HTTP requests\<close>

text \<open>
  \<open>requests.get\<close> either raises \<open>Timeout\<close>, raises another \<open>RequestException\<close>, or returns a
  response with a status code and a body; \<open>resp.json()\<close> on the body either raises (the
  \<open>None\<close> below) or gives the decoded payload. The payload is typed: it is the part of the
  upstream schema that the code reads, so a body that decodes to something of another shape
  (a row that is not an object, a \<open>NextBus\<close> that is \<open>null\<close>) is not among the inputs.
\<close>

record 'a response =
  status_code :: int
  json :: "'a option"

datatype 'a request_outcome = Timeout | RequestException | Response "'a response"

section \<open>Route cache (bot.py, get_bus_routes)\<close>

text \<open>
  One row of the BusRoutes listing. \<open>ServiceNo\<close> is \<open>str(r.get("ServiceNo", ""))\<close> and
  \<open>BusStopCode\<close> is \<open>str(r.get("BusStopCode", ""))\<close>: the empty string when the key is missing.
\<close>

record route_entry =
  ServiceNo :: string
  BusStopCode :: string

text \<open>
  The upstream answers the \<open>n\<close>-th BusRoutes request of the process (filter \<open>service_no\<close>,
  offset \<open>skip\<close>) with \<open>api n service_no skip\<close>: any behaviour of the network, also one that
  changes between two identical requests, is such a function.
\<close>

type_synonym routes_api = "nat \<Rightarrow> string \<Rightarrow> nat \<Rightarrow> route_entry list request_outcome"

text \<open>The state that get_bus_routes reads and writes: the cache and the number of requests sent.\<close>

record route_state =
  bus_route_cache :: "string \<rightharpoonup> route_entry list"
  requests :: nat

definition MAX_RETRIES :: nat where
  "MAX_RETRIES = 3"

definition batch_size :: nat where
  "batch_size = 500"

text \<open>
  The retry loop \<open>for attempt in range(MAX_RETRIES)\<close>. \<open>Fetched\<close>: \<open>requests.get\<close> returned and
  the loop was left by \<open>break\<close>. \<open>Gave_up\<close>: one of the two \<open>return []\<close> of the handlers.
  \<open>No_response\<close>: the range ran out with \<open>resp\<close> still \<open>None\<close>. The second component is the
  number of requests sent so far.
\<close>

datatype fetch = Fetched "route_entry list response" | Gave_up | No_response

function try_request :: "routes_api \<Rightarrow> string \<Rightarrow> nat \<Rightarrow> nat \<Rightarrow> nat \<Rightarrow> fetch \<times> nat" where
  "try_request api service_no skip attempt n =
     (if attempt < MAX_RETRIES then
        (case api n service_no skip of
           Response resp \<Rightarrow> (Fetched resp, Suc n)
         | Timeout \<Rightarrow>
             if attempt < MAX_RETRIES - 1
             then try_request api service_no skip (Suc attempt) (Suc n)
             else (Gave_up, Suc n)
         | RequestException \<Rightarrow> (Gave_up, Suc n))
      else (No_response, n))"
  by pat_completeness auto
termination
  by (relation "measure (\<lambda>(api, service_no, skip, attempt, n). MAX_RETRIES - attempt)") auto

declare try_request.simps [simp del]

text \<open>
  The \<open>while True\<close> loop. \<open>Returned_empty\<close>: the function was left by a \<open>return []\<close> inside the
  loop, past the statement that writes the cache. \<open>Loop_left rs\<close>: the loop was left by one
  of its \<open>break\<close>s with \<open>all_routes = rs\<close>, so that the statements after the loop run.
  The loop need not end (an upstream that answers every page with 500 rows): the result
  \<open>None\<close> is a call that never returns.
\<close>

datatype loop_exit = Returned_empty | Loop_left "route_entry list"

partial_function (option) paginate ::
  "routes_api \<Rightarrow> string \<Rightarrow> nat \<Rightarrow> route_entry list \<Rightarrow> nat \<Rightarrow> (loop_exit \<times> nat) option" where
  "paginate api service_no skip all_routes n =
     (case try_request api service_no skip 0 n of
        (Gave_up, n') \<Rightarrow> Some (Returned_empty, n')
      | (No_response, n') \<Rightarrow> Some (Returned_empty, n')
      | (Fetched resp, n') \<Rightarrow>
          if status_code resp \<noteq> 200 then Some (Loop_left all_routes, n')
          else (case json resp of
                  None \<Rightarrow> Some (Loop_left all_routes, n')
                | Some routes \<Rightarrow>
                    if routes = [] then Some (Loop_left all_routes, n')
                    else let all_routes' = all_routes @ filter (\<lambda>r. ServiceNo r = service_no) routes
                         in if length routes < batch_size then Some (Loop_left all_routes', n')
                            else paginate api service_no (skip + batch_size) all_routes' n'))"

definition get_bus_routes ::
  "routes_api \<Rightarrow> string \<Rightarrow> route_state \<Rightarrow> (route_entry list \<times> route_state) option" where
  "get_bus_routes api service_no st =
     (case bus_route_cache st service_no of
        Some cached \<Rightarrow> Some (cached, st)
      | None \<Rightarrow>
          (case paginate api service_no 0 [] (requests st) of
             None \<Rightarrow> None
           | Some (Returned_empty, n') \<Rightarrow> Some ([], st\<lparr>requests := n'\<rparr>)
           | Some (Loop_left all_routes, n') \<Rightarrow>
               Some (all_routes,
                     st\<lparr>bus_route_cache := (bus_route_cache st)(service_no \<mapsto> all_routes),
                        requests := n'\<rparr>)))"


section \<open>Stop directory and validation (bot.py)\<close>

record stop =
  code :: string
  name :: string
  road :: string

text \<open>
  \<open>all_bus_stops_cache\<close>, a dict from stop code to stop, in insertion order: \<open>.get\<close> is
  \<open>map_of\<close> and \<open>.values()\<close> is the list of second components.
\<close>

type_synonym stop_directory = "(string \<times> stop) list"

definition is_stop_in_bus_route ::
  "routes_api \<Rightarrow> string \<Rightarrow> string \<Rightarrow> route_state \<Rightarrow> (bool \<times> route_state) option" where
  "is_stop_in_bus_route api bus_number stop_code st =
     (case get_bus_routes api bus_number st of
        None \<Rightarrow> None
      | Some (routes, st') \<Rightarrow> Some (stop_code \<in> set (map BusStopCode routes), st'))"

definition search_bus_stops_by_name :: "stop_directory \<Rightarrow> string \<Rightarrow> stop list" where
  "search_bus_stops_by_name directory query =
     (let query' = lower query
      in filter (\<lambda>s. str_in query' (lower (name s)) \<or> str_in query' (lower (road s)))
           (map snd directory))"

text \<open>
  What validate_bus_stop_input returns: \<open>None\<close>, the two-key dict of the code path, the
  directory's own stop dict of the name path, or the message string.
\<close>

datatype validation = Absent | Code_and_name string string | Stop_dict stop | Message string

definition multiple_matches_message :: "string \<Rightarrow> string" where
  "multiple_matches_message user_input =
     ''I found multiple stops matching '' @ [CHR 0x22] @ user_input @ [CHR 0x22] @ ''.''
       @ [CHR 0x0A] @ ''Try entering the exact 5-digit bus stop code.''"

definition validate_bus_stop_input ::
  "routes_api \<Rightarrow> stop_directory \<Rightarrow> string \<Rightarrow> string \<Rightarrow> route_state
     \<Rightarrow> (validation \<times> route_state) option" where
  "validate_bus_stop_input api directory bus_number raw_input st =
     (let user_input = strip raw_input
      in if isdigit user_input \<and> length user_input = 5 then
           (case map_of directory user_input of
              None \<Rightarrow> Some (Absent, st)
            | Some s \<Rightarrow>
                (case is_stop_in_bus_route api bus_number user_input st of
                   None \<Rightarrow> None
                 | Some (member, st') \<Rightarrow>
                     if \<not> member then Some (Absent, st')
                     else Some (Code_and_name user_input (name s), st')))
         else
           (case search_bus_stops_by_name directory user_input of
              [] \<Rightarrow> Some (Absent, st)
            | [match] \<Rightarrow>
                (case is_stop_in_bus_route api bus_number (code match) st of
                   None \<Rightarrow> None
                 | Some (member, st') \<Rightarrow>
                     if \<not> member then Some (Absent, st') else Some (Stop_dict match, st'))
            | _ # _ # _ \<Rightarrow> Some (Message (multiple_matches_message user_input), st)))"

section \<open>Arrival query and message (bot.py)\<close>

text \<open>
  One entry of \<open>Services\<close> in a BusArrival payload: \<open>svc.get("ServiceNo")\<close>, and
  \<open>.get("EstimatedArrival")\<close> of its \<open>NextBus\<close> and \<open>NextBus2\<close> (\<open>None\<close> for a key that is
  missing).
\<close>

record bus_info =
  EstimatedArrival :: "string option"

record service =
  svc_ServiceNo :: "string option"
  NextBus :: bus_info
  NextBus2 :: bus_info

text \<open>The upstream's answer to the \<open>n\<close>-th BusArrival request, for the given stop code.\<close>

type_synonym arrival_api = "nat \<Rightarrow> string \<Rightarrow> service list request_outcome"


text \<open>
  \<open>datetime.fromisoformat\<close> is the library's: it raises, or gives a datetime without an
  offset, or one with an offset, that is, an instant. Instants and the clock are in
  microseconds since the epoch, the resolution of \<open>datetime\<close>.
\<close>

datatype parsed = Parse_error | Naive int | Aware int

definition replace_Z :: "string \<Rightarrow> string" where
  "replace_Z s = concat (map (\<lambda>c. if c = CHR ''Z'' then ''+00:00'' else [c]) s)"

text \<open>\<open>int(x)\<close> on a float: towards zero.\<close>

definition py_int :: "real \<Rightarrow> int" where
  "py_int x = (if x < 0 then \<lceil>x\<rceil> else \<lfloor>x\<rfloor>)"

text \<open>
  \<open>now\<close> is what \<open>datetime.now(timezone.utc)\<close> returns in this call. Subtracting an instant
  from a datetime without an offset raises \<open>TypeError\<close>, which \<open>except Exception\<close> turns into
  \<open>None\<close>. The two float divisions are taken as exact.
\<close>

definition minutes_to_arrival :: "(string \<Rightarrow> parsed) \<Rightarrow> int \<Rightarrow> string option \<Rightarrow> int option" where
  "minutes_to_arrival fromisoformat now iso_time =
     (case iso_time of
        None \<Rightarrow> None
      | Some t \<Rightarrow>
          if t = [] then None
          else (case fromisoformat (replace_Z t) of
                  Parse_error \<Rightarrow> None
                | Naive arr \<Rightarrow> None
                | Aware arr \<Rightarrow>
                    let diff = (real_of_int (arr - now) / 1000000) / 60
                    in Some (max 0 (py_int diff))))"

text \<open>
  The source's \<open>\\n\<close> in a plain string literal is a backslash and the letter n. The bus
  emoji U+1F68C is the one code point beyond U+00FF; it is spelled as its four UTF-8 bytes,
  and nothing below looks inside it.
\<close>

definition backslash_n :: string where
  "backslash_n = [CHR 0x5C, CHR ''n'']"

definition bus_emoji :: string where
  "bus_emoji = [CHR 0xF0, CHR 0x9F, CHR 0x9A, CHR 0x8C]"

definition urgency_very_soon :: string where
  "urgency_very_soon = ''*RUN! The bus is arriving soon!*''"

definition urgency_shortly :: string where
  "urgency_shortly = ''*Bus is coming shortly*''"

definition urgency_neutral :: string where
  "urgency_neutral = ''You have some time.''"

text \<open>\<open>f"{x}"\<close> for the result of minutes_to_arrival.\<close>

definition str_minutes :: "int option \<Rightarrow> string" where
  "str_minutes m = (case m of None \<Rightarrow> ''None'' | Some i \<Rightarrow> str_int i)"

text \<open>\<open>now1\<close> and \<open>now2\<close> are the clock readings of the two calls of minutes_to_arrival.\<close>

definition format_arrival_message ::
  "(string \<Rightarrow> parsed) \<Rightarrow> int \<Rightarrow> int \<Rightarrow> service option \<Rightarrow> string \<Rightarrow> string" where
  "format_arrival_message fromisoformat now1 now2 svc bus =
     (let next_bus = (case svc of Some s \<Rightarrow> NextBus s | None \<Rightarrow> \<lparr>EstimatedArrival = None\<rparr>);
          next2_bus = (case svc of Some s \<Rightarrow> NextBus2 s | None \<Rightarrow> \<lparr>EstimatedArrival = None\<rparr>);
          next_arrival = minutes_to_arrival fromisoformat now1 (EstimatedArrival next_bus);
          next2_arrival = minutes_to_arrival fromisoformat now2 (EstimatedArrival next2_bus);
          msg = bus_emoji @ '' *Bus '' @ bus @ '' Arrival Info*'' @ backslash_n
      in case next_arrival of
           None \<Rightarrow> msg @ ''No arrival data available.'' @ backslash_n
         | Some m \<Rightarrow>
             let urgency = (if m \<le> 2 then urgency_very_soon
                            else if m \<le> 5 then urgency_shortly
                            else urgency_neutral)
             in msg @ ''Next bus: *'' @ str_int m @ '' min*'' @ backslash_n
                  @ ''Second bus: *'' @ str_minutes next2_arrival @ '' min*''
                  @ backslash_n @ backslash_n @ urgency)"

section \<open>The tick (bot.py, check_reminders)\<close>

record reminder =
  bus_number :: string
  bus_stop :: string
  bus_stop_name :: string
  days :: string
  time :: string




text \<open>
  What a sweep reads from outside: the BusArrival upstream, the parser, and the clock. The
  message for the \<open>k\<close>-th arrival query of the sweep reads the clock twice, \<open>clock (2 * k)\<close>
  and \<open>clock (2 * k + 1)\<close>.
\<close>

record tick_env =
  arrival :: arrival_api
  fromisoformat :: "string \<Rightarrow> parsed"
  clock :: "nat \<Rightarrow> int"





section \<open>Reminder store (dynamodb_helper.py, delete_reminder)\<close>

text \<open>How one call of the store's client ends: with an answer, or by raising \<open>ClientError\<close>.\<close>

datatype store_call = Answers | Raises_ClientError

text \<open>
  Modelled from the spec: the record store is DynamoDB, an external service reached through
  boto3; none of it is in the repository. It is a store "keyed by an opaque reminder id"
  whose delete-by-id reports "whether a record actually existed": \<open>delete_item\<close> with
  \<open>ReturnValues='ALL_OLD'\<close> removes the item under the key and answers with the attributes
  it had (no \<open>Attributes\<close> when there was none), or raises \<open>ClientError\<close> and changes nothing.
  An item holds its key at least, so the attributes of a deleted item are never an empty
  dict.
\<close>

definition delete_item ::
  "store_call \<Rightarrow> (string \<rightharpoonup> 'item) \<Rightarrow> string \<Rightarrow> ('item option \<times> (string \<rightharpoonup> 'item)) option" where
  "delete_item call table key =
     (case call of
        Raises_ClientError \<Rightarrow> None
      | Answers \<Rightarrow> Some (table key, table(key := None)))"

text \<open>delete_reminder: what it returns and the table it leaves.\<close>

definition delete_reminder ::
  "store_call \<Rightarrow> string \<Rightarrow> (string \<rightharpoonup> 'item) \<Rightarrow> bool \<times> (string \<rightharpoonup> 'item)" where
  "delete_reminder call reminder_id table =
     (if reminder_id = [] then (False, table)
      else (case delete_item call table reminder_id of
              None \<Rightarrow> (False, table)
            | Some (Some attributes, table') \<Rightarrow> (True, table')
            | Some (None, table') \<Rightarrow> (False, table')))"

section \<open>The conditions of the specification\<close>



text \<open>
  The urgency bands in the specification's words: at most 2 minutes, more than 2 and at
  most 5, anything else.
\<close>

definition spec_band :: "int \<Rightarrow> string" where
  "spec_band m =
     (if m \<le> 2 then urgency_very_soon
      else if 2 < m \<and> m \<le> 5 then urgency_shortly
      else urgency_neutral)"

section \<open>Example data\<close>

text \<open>
  The directory and route of the specification's end-to-end example, with a second stop that
  service 970 does not serve; an upstream that cannot be reached.
\<close>

definition jurong_east_int :: stop where
  "jurong_east_int =
     \<lparr>code = ''28009'', name = ''Jurong East Int'', road = ''Jurong East Ctrl''\<rparr>"

definition jurong_east_stn :: stop where
  "jurong_east_stn =
     \<lparr>code = ''28019'', name = ''Jurong East Stn'', road = ''Jurong Gateway Rd''\<rparr>"

definition two_stops :: stop_directory where
  "two_stops = [(''28009'', jurong_east_int), (''28019'', jurong_east_stn)]"

definition route_970_cached :: route_state where
  "route_970_cached =
     \<lparr>bus_route_cache = [''970'' \<mapsto> [\<lparr>ServiceNo = ''970'', BusStopCode = ''28009''\<rparr>]],
      requests = 0\<rparr>"

definition no_network :: routes_api where
  "no_network n service_no skip = RequestException"

text \<open>Two reminders for 08:00, a sweep environment whose upstream times out, an empty log.\<close>

definition weekdays_0800 :: reminder where
  "weekdays_0800 =
     \<lparr>bus_number = ''970'', bus_stop = ''28009'', bus_stop_name = ''Jurong East Int'',
      days = ''weekdays'', time = ''08:00''\<rparr>"




text \<open>
  2024-05-01T08:00:00Z in microseconds since the epoch, and what \<open>fromisoformat\<close> makes of a
  few strings around it: instants for those with an offset, a datetime without offset for
  the one without, an error for anything else.
\<close>

definition eight_o_clock :: int where
  "eight_o_clock = 1714550400000000"

definition parse_example :: "string \<Rightarrow> parsed" where
  "parse_example s =
     (if s = ''2024-05-01T07:58:30+00:00'' then Aware (eight_o_clock - 90000000)
      else if s = ''2024-05-01T08:02:00+00:00'' then Aware (eight_o_clock + 120000000)
      else if s = ''2024-05-01T08:03:00+00:00'' then Aware (eight_o_clock + 180000000)
      else if s = ''2024-05-01T08:05:00+00:00'' then Aware (eight_o_clock + 300000000)
      else if s = ''2024-05-01T08:06:00+00:00'' then Aware (eight_o_clock + 360000000)
      else if s = ''2024-05-01T08:03:00'' then Naive (eight_o_clock + 180000000)
      else Parse_error)"

definition bus_in :: "string \<Rightarrow> service" where
  "bus_in t =
     \<lparr>svc_ServiceNo = Some ''970'', NextBus = \<lparr>EstimatedArrival = Some t\<rparr>,
      NextBus2 = \<lparr>EstimatedArrival = None\<rparr>\<rparr>"

section \<open>Strings: facts\<close>

lemma ascii_digit_not_space: "c \<in> set ''0123456789'' \<Longrightarrow> \<not> isspace_char c"
  by (auto simp: isspace_char_def)

lemma ascii_digit_isdigit: "c \<in> set ''0123456789'' \<Longrightarrow> isdigit_char c"
  by (auto simp: isdigit_char_def)

lemma dropWhile_hd_id: "xs = [] \<or> \<not> P (hd xs) \<Longrightarrow> dropWhile P xs = xs"
  by (cases xs) auto

lemma strip_id:
  assumes "s = [] \<or> (\<not> isspace_char (hd s) \<and> \<not> isspace_char (last s))"
  shows "strip s = s"
proof (cases "s = []")
  case True
  then show ?thesis by (simp add: strip_def)
next
  case False
  with assms have h: "\<not> isspace_char (hd s)" and l: "\<not> isspace_char (last s)" by auto
  from h have "dropWhile isspace_char s = s" by (simp add: dropWhile_hd_id)
  moreover from False l have "dropWhile isspace_char (rev s) = rev s"
    by (simp add: dropWhile_hd_id hd_rev)
  ultimately show ?thesis by (simp add: strip_def)
qed

lemma strip_digits:
  assumes "set c \<subseteq> set ''0123456789''"
  shows "strip c = c"
proof (rule strip_id, cases "c = []")
  case True
  then show "c = [] \<or> (\<not> isspace_char (hd c) \<and> \<not> isspace_char (last c))" by simp
next
  case False
  then have "hd c \<in> set c" and "last c \<in> set c" by simp_all
  with assms have "hd c \<in> set ''0123456789''" and "last c \<in> set ''0123456789''" by blast+
  then show "c = [] \<or> (\<not> isspace_char (hd c) \<and> \<not> isspace_char (last c))"
    using ascii_digit_not_space by blast
qed

lemma isdigit_digits:
  assumes "set c \<subseteq> set ''0123456789''" and "c \<noteq> []"
  shows "isdigit c"
  using assms ascii_digit_isdigit by (auto simp: isdigit_def list_all_iff)

lemma strip_whitespace:
  assumes "list_all isspace_char s"
  shows "strip s = []"
proof -
  from assms have h: "dropWhile isspace_char s = []"
    by (simp add: list_all_iff)
  show ?thesis by (simp only: strip_def h rev.simps dropWhile.simps)
qed

lemma str_in_Nil: "str_in [] s"
  by (cases s) simp_all

lemma search_empty_query: "search_bus_stops_by_name directory [] = map snd directory"
  by (simp add: search_bus_stops_by_name_def lower_def str_in_Nil)

section \<open>Route cache: facts\<close>

lemma get_bus_routes_hit:
  "bus_route_cache st s = Some rs \<Longrightarrow> get_bus_routes api s st = Some (rs, st)"
  by (simp add: get_bus_routes_def)




text \<open>
  The two handlers of the retry loop leave by \<open>return []\<close>: three timeouts in a row, or one
  other request error, and the call returns the empty list with the cache as it was.
\<close>

lemma get_bus_routes_gave_up:
  assumes "bus_route_cache st s = None"
    and "try_request api s 0 0 (requests st) = (Gave_up, n')"
  shows "get_bus_routes api s st = Some ([], st\<lparr>requests := n'\<rparr>)"
  using assms by (simp add: get_bus_routes_def paginate.simps)

lemma try_request_timeouts:
  assumes "\<forall>k < 3. api (n + k) s skip = Timeout"
  shows "try_request api s skip 0 n = (Gave_up, n + 3)"
proof -
  from assms have "api n s skip = Timeout" "api (Suc n) s skip = Timeout"
    "api (Suc (Suc n)) s skip = Timeout"
    using assms [rule_format, of 0] assms [rule_format, of 1] assms [rule_format, of 2]
    by simp_all
  then show ?thesis
    by (simp add: try_request.simps MAX_RETRIES_def)
qed

text \<open>
  A first page that comes back with another status than 200, or with a body that does not
  decode, ends the loop by \<open>break\<close>: the empty list is returned and written to the cache.
\<close>

lemma get_bus_routes_first_page_error:
  assumes "bus_route_cache st s = None"
    and "api (requests st) s 0 = Response resp"
    and "status_code resp \<noteq> 200 \<or> json resp = None"
  shows "get_bus_routes api s st =
     Some ([], st\<lparr>bus_route_cache := (bus_route_cache st)(s \<mapsto> []),
                    requests := Suc (requests st)\<rparr>)"
proof -
  from assms(2) have "try_request api s 0 0 (requests st) = (Fetched resp, Suc (requests st))"
    by (simp add: try_request.simps MAX_RETRIES_def)
  with assms(1,3) show ?thesis
    by (auto simp: get_bus_routes_def paginate.simps)
qed

text \<open>A miss whose loop runs to a \<open>break\<close> writes what it returns.\<close>

lemma get_bus_routes_completed:
  assumes "bus_route_cache st s = None"
    and "paginate api s 0 [] (requests st) = Some (Loop_left rs, n')"
  shows "get_bus_routes api s st =
     Some (rs, st\<lparr>bus_route_cache := (bus_route_cache st)(s \<mapsto> rs), requests := n'\<rparr>)"
  using assms by (simp add: get_bus_routes_def)

lemma try_request_error:
  assumes "api n s skip = RequestException"
  shows "try_request api s skip 0 n = (Gave_up, Suc n)"
  using assms by (simp add: try_request.simps MAX_RETRIES_def)

section \<open>Route cache: claims\<close>

text \<open>
  C1. Claimed: a call of get_bus_routes writes the cache only when the pagination has run
  to its end; a fetch cut short by a non-200 response or by a decode error leaves no entry
  for the service number. The code leaves the loop by \<open>break\<close> in both cases, and the
  statement after the loop writes whatever \<open>all_routes\<close> holds. Evaluated on an empty cache
  for service 970: a first page answered with status 500, or with a body that does not
  decode, stores the empty list (the entry that means "no such service"); a full first page
  of 500 rows followed by status 503 stores those 500 rows as the whole route. In general:
  \<open>get_bus_routes_first_page_error\<close>. The handlers for timeouts and other request errors in
  the same loop return without writing (\<open>get_bus_routes_gave_up\<close>).
\<close>

theorem get_bus_routes_caches_failed_fetch:
  "get_bus_routes (\<lambda>n s skip. Response \<lparr>status_code = 500, json = None\<rparr>) ''970''
       \<lparr>bus_route_cache = Map.empty, requests = 0\<rparr>
     = Some ([], \<lparr>bus_route_cache = [''970'' \<mapsto> []], requests = 1\<rparr>)
   \<and> get_bus_routes (\<lambda>n s skip. Response \<lparr>status_code = 200, json = None\<rparr>) ''970''
       \<lparr>bus_route_cache = Map.empty, requests = 0\<rparr>
     = Some ([], \<lparr>bus_route_cache = [''970'' \<mapsto> []], requests = 1\<rparr>)
   \<and> get_bus_routes
       (\<lambda>n s skip.
          if n = 0
          then Response \<lparr>status_code = 200,
                 json = Some (replicate 500 \<lparr>ServiceNo = ''970'', BusStopCode = ''28009''\<rparr>)\<rparr>
          else Response \<lparr>status_code = 503, json = None\<rparr>)
       ''970'' \<lparr>bus_route_cache = Map.empty, requests = 0\<rparr>
     = Some (replicate 500 \<lparr>ServiceNo = ''970'', BusStopCode = ''28009''\<rparr>,
             \<lparr>bus_route_cache =
                [''970'' \<mapsto> replicate 500 \<lparr>ServiceNo = ''970'', BusStopCode = ''28009''\<rparr>],
              requests = 2\<rparr>)"
  by (simp add: get_bus_routes_def paginate.simps try_request.simps MAX_RETRIES_def
      batch_size_def)



section \<open>Validation: claims\<close>

text \<open>
  C2. For an input that is exactly five decimal digits, validate_bus_stop_input looks the
  code up in the stop directory. A code that is not there gives \<open>None\<close> at once, with no
  call of get_bus_routes. For a code that is there, the answer is decided by the list that
  get_bus_routes returns for the bus number in this very call: the dict of the code and the
  directory's name for it when the code is among the list's stop codes, \<open>None\<close> when it is
  not. (When get_bus_routes does not return, neither does the validation.)
\<close>

theorem validate_code:
  assumes "length c = 5" and "set c \<subseteq> set ''0123456789''"
  shows "validate_bus_stop_input api directory b c st =
     (case map_of directory c of
        None \<Rightarrow> Some (Absent, st)
      | Some s \<Rightarrow>
          (case get_bus_routes api b st of
             None \<Rightarrow> None
           | Some (routes, st') \<Rightarrow>
               Some (if c \<in> set (map BusStopCode routes) then Code_and_name c (name s) else Absent,
                     st')))"
proof -
  from assms(1) have ne: "c \<noteq> []" by auto
  from assms(2) have s: "strip c = c" by (rule strip_digits)
  from assms(2) ne have d: "isdigit c" by (rule isdigit_digits)
  show ?thesis
    by (simp add: validate_bus_stop_input_def s d assms(1) is_stop_in_bus_route_def
        split: option.splits)
qed

text \<open>
  The end-to-end example: 28009 is on the cached route of 970 and is confirmed with its
  name; 28019 is a stop that 970 does not serve; 99999 is no stop at all.
\<close>

theorem validate_code_witness:
  "length ''28009'' = 5 \<and> set ''28009'' \<subseteq> set ''0123456789''
   \<and> validate_bus_stop_input no_network two_stops ''970'' ''28009'' route_970_cached
       = Some (Code_and_name ''28009'' ''Jurong East Int'', route_970_cached)
   \<and> length ''28019'' = 5 \<and> set ''28019'' \<subseteq> set ''0123456789''
   \<and> validate_bus_stop_input no_network two_stops ''970'' ''28019'' route_970_cached
       = Some (Absent, route_970_cached)
   \<and> length ''99999'' = 5 \<and> set ''99999'' \<subseteq> set ''0123456789''
   \<and> validate_bus_stop_input no_network two_stops ''970'' ''99999'' route_970_cached
       = Some (Absent, route_970_cached)"
proof -
  have a: "length ''28009'' = 5" "set ''28009'' \<subseteq> set ''0123456789''" by simp_all
  have b: "length ''28019'' = 5" "set ''28019'' \<subseteq> set ''0123456789''" by simp_all
  have c: "length ''99999'' = 5" "set ''99999'' \<subseteq> set ''0123456789''" by simp_all
  have hit: "get_bus_routes no_network ''970'' route_970_cached
      = Some ([\<lparr>ServiceNo = ''970'', BusStopCode = ''28009''\<rparr>], route_970_cached)"
    by (rule get_bus_routes_hit) (simp add: route_970_cached_def)
  have "validate_bus_stop_input no_network two_stops ''970'' ''28009'' route_970_cached
       = Some (Code_and_name ''28009'' ''Jurong East Int'', route_970_cached)"
    by (simp add: validate_code [OF a] hit two_stops_def jurong_east_int_def)
  moreover have "validate_bus_stop_input no_network two_stops ''970'' ''28019'' route_970_cached
       = Some (Absent, route_970_cached)"
    by (simp add: validate_code [OF b] hit two_stops_def jurong_east_stn_def)
  moreover have "validate_bus_stop_input no_network two_stops ''970'' ''99999'' route_970_cached
       = Some (Absent, route_970_cached)"
    by (simp add: validate_code [OF c] two_stops_def)
  ultimately show ?thesis using a b c by blast
qed



text \<open>
  C10. An input that is empty or all whitespace is trimmed to the empty string, which is
  not five digits and, as a query, occurs in every name: the search returns every stop of
  the directory. So a directory of two or more stops gives the message that asks for the
  exact code; a directory of exactly one stop gives that stop, subject to the membership
  test; an empty directory gives \<open>None\<close>.
\<close>

theorem validate_blank:
  assumes "list_all isspace_char raw"
  shows "strip raw = []
     \<and> search_bus_stops_by_name directory (strip raw) = map snd directory
     \<and> validate_bus_stop_input api directory b raw st =
         (case directory of
            [] \<Rightarrow> Some (Absent, st)
          | [(k, s)] \<Rightarrow>
              (case get_bus_routes api b st of
                 None \<Rightarrow> None
               | Some (routes, st') \<Rightarrow>
                   Some (if code s \<in> set (map BusStopCode routes) then Stop_dict s else Absent,
                         st'))
          | _ # _ # _ \<Rightarrow> Some (Message (multiple_matches_message []), st))"
proof -
  from assms have s: "strip raw = []" by (rule strip_whitespace)
  have "validate_bus_stop_input api directory b raw st =
         (case directory of
            [] \<Rightarrow> Some (Absent, st)
          | [(k, s)] \<Rightarrow>
              (case get_bus_routes api b st of
                 None \<Rightarrow> None
               | Some (routes, st') \<Rightarrow>
                   Some (if code s \<in> set (map BusStopCode routes) then Stop_dict s else Absent,
                         st'))
          | _ # _ # _ \<Rightarrow> Some (Message (multiple_matches_message []), st))"
    by (auto simp add: validate_bus_stop_input_def s isdigit_def search_empty_query
        is_stop_in_bus_route_def split: option.splits list.splits)
  with s show ?thesis by (simp add: search_empty_query)
qed

text \<open>
  Three blanks against the directory of two stops: the message. The empty input against
  a directory that holds 28009 alone: that stop, which is on the route of 970.
\<close>

theorem validate_blank_witness:
  "list_all isspace_char ''   ''
   \<and> validate_bus_stop_input no_network two_stops ''970'' ''   '' route_970_cached
       = Some (Message (multiple_matches_message []), route_970_cached)
   \<and> list_all isspace_char []
   \<and> validate_bus_stop_input no_network [(''28009'', jurong_east_int)] ''970'' [] route_970_cached
       = Some (Stop_dict jurong_east_int, route_970_cached)"
proof -
  have a: "list_all isspace_char ''   ''" by code_simp
  have b: "list_all isspace_char []" by simp
  have hit: "get_bus_routes no_network ''970'' route_970_cached
      = Some ([\<lparr>ServiceNo = ''970'', BusStopCode = ''28009''\<rparr>], route_970_cached)"
    by (rule get_bus_routes_hit) (simp add: route_970_cached_def)
  have "validate_bus_stop_input no_network two_stops ''970'' ''   '' route_970_cached
       = Some (Message (multiple_matches_message []), route_970_cached)"
    using validate_blank [OF a, of two_stops no_network "''970''" route_970_cached]
    by (simp add: two_stops_def)
  moreover have "validate_bus_stop_input no_network [(''28009'', jurong_east_int)] ''970'' []
      route_970_cached = Some (Stop_dict jurong_east_int, route_970_cached)"
    using validate_blank [OF b, of "[(''28009'', jurong_east_int)]" no_network "''970''"
        route_970_cached]
    by (simp add: hit jurong_east_int_def)
  ultimately show ?thesis using a b by blast
qed

section \<open>Arrival computation and message: claims\<close>




text \<open>
  C8. When the minutes to arrival \<open>m\<close> of the next bus are defined, the message ends with
  the urgency line of the band of \<open>m\<close>: "arriving soon" for \<open>m\<close> at most 2, "coming shortly"
  for \<open>m\<close> above 2 and at most 5, "some time" for anything else. So 2 is in the first band,
  5 in the second and 6 in the third; the three lines are different strings.
\<close>

theorem format_arrival_message_band:
  "(minutes_to_arrival parse now1 (EstimatedArrival (NextBus s)) = Some m \<longrightarrow>
      format_arrival_message parse now1 now2 (Some s) bus =
        bus_emoji @ '' *Bus '' @ bus @ '' Arrival Info*'' @ backslash_n
        @ ''Next bus: *'' @ str_int m @ '' min*'' @ backslash_n
        @ ''Second bus: *''
        @ str_minutes (minutes_to_arrival parse now2 (EstimatedArrival (NextBus2 s)))
        @ '' min*'' @ backslash_n @ backslash_n @ spec_band m)
   \<and> spec_band 2 = urgency_very_soon
   \<and> spec_band 5 = urgency_shortly
   \<and> spec_band 6 = urgency_neutral
   \<and> urgency_very_soon \<noteq> urgency_shortly
   \<and> urgency_shortly \<noteq> urgency_neutral
   \<and> urgency_very_soon \<noteq> urgency_neutral"
proof -
  have "format_arrival_message parse now1 now2 (Some s) bus =
        bus_emoji @ '' *Bus '' @ bus @ '' Arrival Info*'' @ backslash_n
        @ ''Next bus: *'' @ str_int m @ '' min*'' @ backslash_n
        @ ''Second bus: *''
        @ str_minutes (minutes_to_arrival parse now2 (EstimatedArrival (NextBus2 s)))
        @ '' min*'' @ backslash_n @ backslash_n @ spec_band m"
    if "minutes_to_arrival parse now1 (EstimatedArrival (NextBus s)) = Some m"
    using that by (simp add: format_arrival_message_def spec_band_def Let_def)
  moreover have "spec_band 2 = urgency_very_soon" "spec_band 5 = urgency_shortly"
    "spec_band 6 = urgency_neutral"
    by (simp_all add: spec_band_def)
  moreover have "urgency_very_soon \<noteq> urgency_shortly" "urgency_shortly \<noteq> urgency_neutral"
    "urgency_very_soon \<noteq> urgency_neutral"
    by (simp_all add: urgency_very_soon_def urgency_shortly_def urgency_neutral_def)
  ultimately show ?thesis by blast
qed

text \<open>At 08:00:00, buses due at 08:02, 08:05 and 08:06, with no second bus.\<close>

theorem format_arrival_message_band_witness:
  "minutes_to_arrival parse_example eight_o_clock
       (EstimatedArrival (NextBus (bus_in ''2024-05-01T08:02:00Z''))) = Some 2
   \<and> format_arrival_message parse_example eight_o_clock eight_o_clock
        (Some (bus_in ''2024-05-01T08:02:00Z'')) ''970''
       = bus_emoji @ '' *Bus 970 Arrival Info*'' @ backslash_n
         @ ''Next bus: *2 min*'' @ backslash_n
         @ ''Second bus: *None min*'' @ backslash_n @ backslash_n @ urgency_very_soon
   \<and> minutes_to_arrival parse_example eight_o_clock
       (EstimatedArrival (NextBus (bus_in ''2024-05-01T08:05:00Z''))) = Some 5
   \<and> format_arrival_message parse_example eight_o_clock eight_o_clock
        (Some (bus_in ''2024-05-01T08:05:00Z'')) ''970''
       = bus_emoji @ '' *Bus 970 Arrival Info*'' @ backslash_n
         @ ''Next bus: *5 min*'' @ backslash_n
         @ ''Second bus: *None min*'' @ backslash_n @ backslash_n @ urgency_shortly
   \<and> minutes_to_arrival parse_example eight_o_clock
       (EstimatedArrival (NextBus (bus_in ''2024-05-01T08:06:00Z''))) = Some 6
   \<and> format_arrival_message parse_example eight_o_clock eight_o_clock
        (Some (bus_in ''2024-05-01T08:06:00Z'')) ''970''
       = bus_emoji @ '' *Bus 970 Arrival Info*'' @ backslash_n
         @ ''Next bus: *6 min*'' @ backslash_n
         @ ''Second bus: *None min*'' @ backslash_n @ backslash_n @ urgency_neutral"
proof -
  have digits: "str_int 2 = ''2''" "str_int 5 = ''5''" "str_int 6 = ''6''"
    by code_simp+
  have second: "str_minutes (minutes_to_arrival parse_example eight_o_clock
      (EstimatedArrival (NextBus2 (bus_in t)))) = ''None''" for t
    by (simp add: str_minutes_def minutes_to_arrival_def bus_in_def)
  have v: "minutes_to_arrival parse_example eight_o_clock
       (EstimatedArrival (NextBus (bus_in ''2024-05-01T08:02:00Z''))) = Some 2"
    "minutes_to_arrival parse_example eight_o_clock
       (EstimatedArrival (NextBus (bus_in ''2024-05-01T08:05:00Z''))) = Some 5"
    "minutes_to_arrival parse_example eight_o_clock
       (EstimatedArrival (NextBus (bus_in ''2024-05-01T08:06:00Z''))) = Some 6"
    by (simp_all add: minutes_to_arrival_def parse_example_def bus_in_def replace_Z_def
        py_int_def)
  from format_arrival_message_band
    [of parse_example eight_o_clock "bus_in ''2024-05-01T08:02:00Z''" 2 eight_o_clock "''970''"]
    v(1)
  have a: "format_arrival_message parse_example eight_o_clock eight_o_clock
        (Some (bus_in ''2024-05-01T08:02:00Z'')) ''970''
       = bus_emoji @ '' *Bus 970 Arrival Info*'' @ backslash_n
         @ ''Next bus: *2 min*'' @ backslash_n
         @ ''Second bus: *None min*'' @ backslash_n @ backslash_n @ urgency_very_soon"
    by (simp add: digits second)
  from format_arrival_message_band
    [of parse_example eight_o_clock "bus_in ''2024-05-01T08:05:00Z''" 5 eight_o_clock "''970''"]
    v(2)
  have b: "format_arrival_message parse_example eight_o_clock eight_o_clock
        (Some (bus_in ''2024-05-01T08:05:00Z'')) ''970''
       = bus_emoji @ '' *Bus 970 Arrival Info*'' @ backslash_n
         @ ''Next bus: *5 min*'' @ backslash_n
         @ ''Second bus: *None min*'' @ backslash_n @ backslash_n @ urgency_shortly"
    by (simp add: digits second)
  from format_arrival_message_band
    [of parse_example eight_o_clock "bus_in ''2024-05-01T08:06:00Z''" 6 eight_o_clock "''970''"]
    v(3)
  have c: "format_arrival_message parse_example eight_o_clock eight_o_clock
        (Some (bus_in ''2024-05-01T08:06:00Z'')) ''970''
       = bus_emoji @ '' *Bus 970 Arrival Info*'' @ backslash_n
         @ ''Next bus: *6 min*'' @ backslash_n
         @ ''Second bus: *None min*'' @ backslash_n @ backslash_n @ urgency_neutral"
    by (simp add: digits second)
  from a b c v show ?thesis by blast
qed

section \<open>The tick: claims\<close>















section \<open>Reminder store: claims\<close>

text \<open>
  C9. For a reminder id under which the table holds no item (the empty id among them),
  delete_reminder returns \<open>False\<close> and the table is as it was, whether the store answers
  or raises \<open>ClientError\<close>.
\<close>

theorem delete_reminder_unknown_id:
  assumes "reminder_id \<notin> dom table"
  shows "delete_reminder call reminder_id table = (False, table)"
proof -
  from assms have "table(reminder_id := None) = table" by auto
  with assms show ?thesis
    by (cases call) (auto simp: delete_reminder_def delete_item_def)
qed

text \<open>A table with the one id "a": deleting "b", or the empty id, reports nothing deleted.\<close>

theorem delete_reminder_unknown_id_witness:
  "''b'' \<notin> dom [''a'' \<mapsto> weekdays_0800]
   \<and> delete_reminder Answers ''b'' [''a'' \<mapsto> weekdays_0800] = (False, [''a'' \<mapsto> weekdays_0800])
   \<and> [] \<notin> dom [''a'' \<mapsto> weekdays_0800]
   \<and> delete_reminder Answers [] [''a'' \<mapsto> weekdays_0800] = (False, [''a'' \<mapsto> weekdays_0800])"
  using delete_reminder_unknown_id [of "''b''" "[''a'' \<mapsto> weekdays_0800]" Answers]
    delete_reminder_unknown_id [of "[]" "[''a'' \<mapsto> weekdays_0800]" Answers]
  by simp

end
